theory Spec2Isabelle
  imports Main "HOL-Library.Word" "HOL-Library.Sublist"
begin

unbundle bit_operations_syntax

section \<open>Data model\<close>

text \<open>
  A JavaScript \<open>Date\<close> is its number of milliseconds since the epoch; the clock
  (\<open>new Date()\<close>, \<open>Date.now()\<close>) is an explicit argument \<open>now\<close> of every function that
  reads it. The integer columns of the store are \<open>int\<close>.
\<close>

type_synonym date = int

text \<open>The rows of the persisted store (Prisma models), restricted to the columns the
  handlers below read or write.\<close>

record InvitedUser =
  email :: string
  group :: string
  hasTaken :: bool
  otpCode :: "string option"
  otpExpiry :: "date option"
  consented :: bool
  remindersSent :: int

record AdminUser =
  adminEmail :: string
  adminName :: string
  adminRole :: string

record SystemSettings =
  productionMode :: bool
  toggledAt :: "date option"
  toggledBy :: "string option"

record SurveyResponse =
  responseEmail :: string
  responseGroup :: string

record prisma =
  invitedUser :: "InvitedUser list"
  adminUser :: "AdminUser list"
  systemSettings :: "SystemSettings list"
  surveyResponse :: "SurveyResponse list"

text \<open>\<open>findFirst()\<close>: the first row of a table, or null.\<close>

definition findFirst :: "'a list \<Rightarrow> 'a option" where
  "findFirst rows = (case rows of [] \<Rightarrow> None | r # _ \<Rightarrow> Some r)"

text \<open>\<open>findUnique({ where: { email } })\<close> on the two tables keyed by email.\<close>

definition findUniqueInvitedUser :: "prisma \<Rightarrow> string \<Rightarrow> InvitedUser option" where
  "findUniqueInvitedUser db e = find (\<lambda>u. email u = e) (invitedUser db)"

definition findUniqueAdminUser :: "prisma \<Rightarrow> string \<Rightarrow> AdminUser option" where
  "findUniqueAdminUser db e = find (\<lambda>a. adminEmail a = e) (adminUser db)"

text \<open>\<open>invitedUser.update({ where: { email }, data })\<close>: the row with that email is
  rewritten by \<open>data\<close>.\<close>

definition updateInvitedUser ::
  "prisma \<Rightarrow> string \<Rightarrow> (InvitedUser \<Rightarrow> InvitedUser) \<Rightarrow> prisma" where
  "updateInvitedUser db e data =
     db\<lparr>invitedUser := map (\<lambda>u. if email u = e then data u else u) (invitedUser db)\<rparr>"

section \<open>lib/crypto.ts: validateOTP\<close>

record otp_validation =
  valid :: bool
  error :: "string option"

text \<open>JavaScript's \<open>!storedCode\<close> on a \<open>string | null\<close>: null and the empty string
  are both falsy. \<open>!expiry\<close> on a \<open>Date | null\<close> holds for null only.\<close>

definition falsy_string :: "string option \<Rightarrow> bool" where
  "falsy_string s = (case s of None \<Rightarrow> True | Some v \<Rightarrow> v = [])"

definition validateOTP ::
  "date \<Rightarrow> string \<Rightarrow> string option \<Rightarrow> date option \<Rightarrow> int \<Rightarrow> otp_validation" where
  "validateOTP now providedCode storedCode expiry attempts =
     (if attempts \<ge> 5 then \<lparr>valid = False, error = Some ''Too many failed attempts''\<rparr>
      else if falsy_string storedCode \<or> expiry = None
        then \<lparr>valid = False, error = Some ''No valid OTP found''\<rparr>
      else if now > the expiry then \<lparr>valid = False, error = Some ''OTP has expired''\<rparr>
      else if providedCode \<noteq> the storedCode
        then \<lparr>valid = False, error = Some ''Invalid OTP code''\<rparr>
      else \<lparr>valid = True, error = None\<rparr>)"

section \<open>lib/crypto.ts: generateOTP\<close>

text \<open>\<open>Number.prototype.toString()\<close> on a non-negative integer: its decimal digits,
  most significant first, no leading zero.\<close>

definition digit_char :: "nat \<Rightarrow> char" where
  "digit_char d = char_of (48 + d)"

function toString :: "nat \<Rightarrow> string" where
  "toString n = (if n < 10 then [digit_char n] else toString (n div 10) @ [digit_char (n mod 10)])"
  by pat_completeness auto
termination
  by (relation "measure id") auto

declare toString.simps [simp del]

text \<open>\<open>buffer.readUInt32BE(0)\<close> on the four bytes that \<open>crypto.randomBytes(4)\<close> returns.\<close>

definition readUInt32BE :: "8 word \<times> 8 word \<times> 8 word \<times> 8 word \<Rightarrow> 32 word" where
  "readUInt32BE buffer =
     (case buffer of (b0, b1, b2, b3) \<Rightarrow>
        push_bit 24 (ucast b0) OR push_bit 16 (ucast b1) OR push_bit 8 (ucast b2) OR ucast b3)"

text \<open>The arithmetic of \<open>generateOTP\<close> on the 32-bit number read from the buffer.\<close>

definition otp_number :: "32 word \<Rightarrow> nat" where
  "otp_number num = unat num mod 900000 + 100000"

definition generateOTP :: "8 word \<times> 8 word \<times> 8 word \<times> 8 word \<Rightarrow> string" where
  "generateOTP buffer = toString (otp_number (readUInt32BE buffer))"

text \<open>The regular expression \<open>^\d{6}$\<close>, and the number a string of digits denotes.\<close>

definition is_digit :: "char \<Rightarrow> bool" where
  "is_digit c = (48 \<le> (of_char c :: nat) \<and> (of_char c :: nat) \<le> 57)"

definition matches_six_digits :: "string \<Rightarrow> bool" where
  "matches_six_digits s = (length s = 6 \<and> list_all is_digit s)"

definition parseInt :: "string \<Rightarrow> nat" where
  "parseInt s = foldl (\<lambda>acc c. 10 * acc + (of_char c - 48)) 0 s"

section \<open>lib/crypto.ts: hashEmail\<close>

text \<open>
  \<open>crypto.createHash('sha256')\<close> is the SHA-256 of FIPS 180-4, written out here on
  32-bit words. A string is the list of the bytes of its UTF-8 encoding, which is what
  \<open>hash.update\<close> feeds to the digest.
\<close>

type_synonym sha_state = "32 word list"

definition rotr :: "nat \<Rightarrow> 32 word \<Rightarrow> 32 word" where
  "rotr n x = drop_bit n x OR push_bit (32 - n) x"

definition Ch :: "32 word \<Rightarrow> 32 word \<Rightarrow> 32 word \<Rightarrow> 32 word" where
  "Ch x y z = (x AND y) XOR (NOT x AND z)"

definition Maj :: "32 word \<Rightarrow> 32 word \<Rightarrow> 32 word \<Rightarrow> 32 word" where
  "Maj x y z = (x AND y) XOR (x AND z) XOR (y AND z)"

definition Sigma0 :: "32 word \<Rightarrow> 32 word" where
  "Sigma0 x = rotr 2 x XOR rotr 13 x XOR rotr 22 x"

definition Sigma1 :: "32 word \<Rightarrow> 32 word" where
  "Sigma1 x = rotr 6 x XOR rotr 11 x XOR rotr 25 x"

definition sigma0 :: "32 word \<Rightarrow> 32 word" where
  "sigma0 x = rotr 7 x XOR rotr 18 x XOR drop_bit 3 x"

definition sigma1 :: "32 word \<Rightarrow> 32 word" where
  "sigma1 x = rotr 17 x XOR rotr 19 x XOR drop_bit 10 x"

definition sha256_K :: "32 word list" where
  "sha256_K =
     [0x428A2F98, 0x71374491, 0xB5C0FBCF, 0xE9B5DBA5, 0x3956C25B, 0x59F111F1,
      0x923F82A4, 0xAB1C5ED5, 0xD807AA98, 0x12835B01, 0x243185BE, 0x550C7DC3,
      0x72BE5D74, 0x80DEB1FE, 0x9BDC06A7, 0xC19BF174, 0xE49B69C1, 0xEFBE4786,
      0x0FC19DC6, 0x240CA1CC, 0x2DE92C6F, 0x4A7484AA, 0x5CB0A9DC, 0x76F988DA,
      0x983E5152, 0xA831C66D, 0xB00327C8, 0xBF597FC7, 0xC6E00BF3, 0xD5A79147,
      0x06CA6351, 0x14292967, 0x27B70A85, 0x2E1B2138, 0x4D2C6DFC, 0x53380D13,
      0x650A7354, 0x766A0ABB, 0x81C2C92E, 0x92722C85, 0xA2BFE8A1, 0xA81A664B,
      0xC24B8B70, 0xC76C51A3, 0xD192E819, 0xD6990624, 0xF40E3585, 0x106AA070,
      0x19A4C116, 0x1E376C08, 0x2748774C, 0x34B0BCB5, 0x391C0CB3, 0x4ED8AA4A,
      0x5B9CCA4F, 0x682E6FF3, 0x748F82EE, 0x78A5636F, 0x84C87814, 0x8CC70208,
      0x90BEFFFA, 0xA4506CEB, 0xBEF9A3F7, 0xC67178F2]"

definition sha256_H0 :: sha_state where
  "sha256_H0 =
     [0x6A09E667, 0xBB67AE85, 0x3C6EF372, 0xA54FF53A,
      0x510E527F, 0x9B05688C, 0x1F83D9AB, 0x5BE0CD19]"

text \<open>Padding: a one bit, zeros up to 56 modulo 64 bytes, the bit length on 64 bits.\<close>

definition be64 :: "nat \<Rightarrow> 8 word list" where
  "be64 n = map (\<lambda>i. ucast (drop_bit (8 * i) (of_nat n :: 64 word))) [7, 6, 5, 4, 3, 2, 1, 0]"

definition sha256_pad :: "8 word list \<Rightarrow> 8 word list" where
  "sha256_pad msg =
     msg @ [0x80] @ replicate ((119 - length msg mod 64) mod 64) 0 @ be64 (8 * length msg)"

fun be32 :: "8 word list \<Rightarrow> 32 word list" where
  "be32 (a # b # c # d # bytes) =
     (push_bit 24 (ucast a) OR push_bit 16 (ucast b) OR push_bit 8 (ucast c) OR ucast d)
       # be32 bytes"
| "be32 _ = []"

text \<open>The message schedule, newest word first: sixteen words of the block, extended by
  forty-eight.\<close>

fun schedule :: "nat \<Rightarrow> 32 word list \<Rightarrow> 32 word list" where
  "schedule 0 ws = ws"
| "schedule (Suc n) ws =
     schedule n ((sigma1 (ws ! 1) + ws ! 6 + sigma0 (ws ! 14) + ws ! 15) # ws)"

fun sha256_round :: "sha_state \<Rightarrow> 32 word \<times> 32 word \<Rightarrow> sha_state" where
  "sha256_round [a, b, c, d, e, f, g, h] (k, w) =
     (let t1 = h + Sigma1 e + Ch e f g + k + w;
          t2 = Sigma0 a + Maj a b c
      in [t1 + t2, a, b, c, d + t1, e, f, g])"
| "sha256_round st _ = st"

definition compress :: "sha_state \<Rightarrow> 32 word list \<Rightarrow> sha_state" where
  "compress hs block =
     map2 (+) hs (foldl sha256_round hs (zip sha256_K (rev (schedule 48 (rev block)))))"

fun process :: "nat \<Rightarrow> sha_state \<Rightarrow> 32 word list \<Rightarrow> sha_state" where
  "process 0 hs ws = hs"
| "process (Suc n) hs ws = process n (compress hs (take 16 ws)) (drop 16 ws)"

definition sha256 :: "8 word list \<Rightarrow> sha_state" where
  "sha256 msg = (let padded = sha256_pad msg in process (length padded div 64) sha256_H0 (be32 padded))"

text \<open>\<open>digest('hex')\<close>: eight lowercase hexadecimal digits for each word of the state.\<close>

definition hex_char :: "nat \<Rightarrow> char" where
  "hex_char d = (if d < 10 then char_of (48 + d) else char_of (87 + d))"

definition hex32 :: "32 word \<Rightarrow> string" where
  "hex32 w = map (\<lambda>i. hex_char (unat (drop_bit (4 * i) w AND 15))) [7, 6, 5, 4, 3, 2, 1, 0]"

definition digest_hex :: "string \<Rightarrow> string" where
  "digest_hex s = concat (map hex32 (sha256 (map of_char s)))"

text \<open>\<open>process.env.ANONYMIZATION_SALT || 'default-salt'\<close>: an unset or empty variable
  gives the default.\<close>

definition salt_of :: "string option \<Rightarrow> string" where
  "salt_of env = (if falsy_string env then ''default-salt'' else the env)"

definition hashEmail :: "string option \<Rightarrow> string \<Rightarrow> string" where
  "hashEmail ANONYMIZATION_SALT e = take 16 (digest_hex (e @ salt_of ANONYMIZATION_SALT))"

text \<open>\<open>String.prototype.includes\<close>.\<close>

definition includes_str :: "string \<Rightarrow> string \<Rightarrow> bool" where
  "includes_str s t = sublist t s"

section \<open>lib/production-mode.ts\<close>

definition getProductionMode :: "prisma \<Rightarrow> bool" where
  "getProductionMode db =
     (case findFirst (systemSettings db) of None \<Rightarrow> False | Some settings \<Rightarrow> productionMode settings)"

definition isTestAccount :: "string \<Rightarrow> bool" where
  "isTestAccount e = suffix ''@example.com'' e"

definition isSiteAdmin :: "prisma \<Rightarrow> string \<Rightarrow> bool" where
  "isSiteAdmin db e = (findUniqueAdminUser db e \<noteq> None)"

record access =
  allowed :: bool
  reason :: "string option"

definition admin_reason :: string where
  "admin_reason = ''Site administrators cannot participate in surveys. To participate as an Administrator stakeholder, use a different email address (e.g., admin_survey@example.com).''"

definition test_account_reason :: string where
  "test_account_reason = ''Test accounts are disabled in production mode. Please use a real email address.''"

definition canAccessSurvey :: "prisma \<Rightarrow> string \<Rightarrow> access" where
  "canAccessSurvey db e =
     (if isSiteAdmin db e then \<lparr>allowed = False, reason = Some admin_reason\<rparr>
      else if getProductionMode db \<and> isTestAccount e
        then \<lparr>allowed = False, reason = Some test_account_reason\<rparr>
      else \<lparr>allowed = True, reason = None\<rparr>)"

section \<open>lib/rate-limiter.ts: RateLimiter\<close>

record RateLimitEntry =
  count :: int
  resetTime :: int

type_synonym RateLimiter = "string \<rightharpoonup> RateLimitEntry"

text \<open>\<open>check\<close> returns its verdict together with the updated \<open>attempts\<close> map.\<close>

definition check ::
  "int \<Rightarrow> RateLimiter \<Rightarrow> string \<Rightarrow> int \<Rightarrow> int \<Rightarrow> bool \<times> RateLimiter" where
  "check now attempts identifier limit windowMs =
     (case attempts identifier of
        None \<Rightarrow> (True, attempts(identifier \<mapsto> \<lparr>count = 1, resetTime = now + windowMs\<rparr>))
      | Some entry \<Rightarrow>
          if now > resetTime entry
            then (True, attempts(identifier \<mapsto> \<lparr>count = 1, resetTime = now + windowMs\<rparr>))
          else if count entry \<ge> limit then (False, attempts)
          else (True, attempts(identifier \<mapsto> entry\<lparr>count := count entry + 1\<rparr>)))"

text \<open>A run of calls of \<open>check\<close> for one key, at the given clock readings, in order.\<close>

fun checks ::
  "RateLimiter \<Rightarrow> string \<Rightarrow> int \<Rightarrow> int \<Rightarrow> int list \<Rightarrow> bool list \<times> RateLimiter" where
  "checks attempts identifier limit windowMs [] = ([], attempts)"
| "checks attempts identifier limit windowMs (now # later) =
     (let (ok, attempts') = check now attempts identifier limit windowMs;
          (oks, attempts'') = checks attempts' identifier limit windowMs later
      in (ok # oks, attempts''))"

section \<open>Route handlers\<close>

text \<open>
  A handler is a function from the clock, the store and the request to the response and
  the store it leaves. The store's operations are taken to succeed; the handlers'
  \<open>catch\<close> branch is reached in the model only through a body that \<open>request.json()\<close>
  cannot parse.
\<close>

record survey_session =
  sessionEmail :: string
  sessionGroup :: string
  sessionConsented :: bool

datatype response =
    JsonError nat "string option"
  | OtpSent "string option"
  | Verified string survey_session
  | ProductionActivated nat nat string date

text \<open>The request body: unreadable, refused by the route's zod schema, or parsed.\<close>

datatype 'a request_body = Malformed | Rejected | Parsed 'a

subsection \<open>app/api/auth/verify-otp/route.ts\<close>

record VerifyOTPData =
  reqEmail :: string
  reqCode :: string
  reqConsented :: bool

text \<open>\<open>n || 0\<close> on a number.\<close>

definition or_zero :: "int \<Rightarrow> int" where
  "or_zero n = (if n = 0 then 0 else n)"

definition verify_otp_POST ::
  "date \<Rightarrow> prisma \<Rightarrow> VerifyOTPData request_body \<Rightarrow> response \<times> prisma" where
  "verify_otp_POST now db body =
     (case body of
        Malformed \<Rightarrow> (JsonError 500 (Some ''Internal server error''), db)
      | Rejected \<Rightarrow> (JsonError 400 (Some ''Invalid verification data''), db)
      | Parsed d \<Rightarrow>
          let acc = canAccessSurvey db (reqEmail d) in
          if \<not> allowed acc then (JsonError 403 (reason acc), db)
          else if \<not> reqConsented d
            then (JsonError 400 (Some ''Consent is required to participate in this survey''), db)
          else
            (case findUniqueInvitedUser db (reqEmail d) of
               None \<Rightarrow> (JsonError 404 (Some ''User not found''), db)
             | Some user \<Rightarrow>
                 let otpValidation =
                       validateOTP now (reqCode d) (otpCode user) (otpExpiry user)
                         (or_zero (remindersSent user))
                 in if \<not> valid otpValidation
                    then (JsonError 400 (error otpValidation),
                          updateInvitedUser db (reqEmail d)
                            (\<lambda>u. u\<lparr>remindersSent := or_zero (remindersSent user) + 1\<rparr>))
                    else (Verified (group user)
                            \<lparr>sessionEmail = email user, sessionGroup = group user,
                             sessionConsented = True\<rparr>,
                          updateInvitedUser db (reqEmail d)
                            (\<lambda>u. u\<lparr>consented := True, otpCode := None, otpExpiry := None,
                                   remindersSent := 0\<rparr>))))"

subsection \<open>app/api/auth/request-otp/route.ts\<close>

text \<open>The environment variables the handler reads, and the arguments that stand for its
  two effects: the bytes \<open>crypto.randomBytes(4)\<close> draws and what \<open>sendOTPEmail\<close>
  returns.\<close>

record env =
  NODE_ENV :: string
  RESEND_API_KEY :: "string option"

definition request_otp_POST ::
  "date \<Rightarrow> env \<Rightarrow> 8 word \<times> 8 word \<times> 8 word \<times> 8 word \<Rightarrow> bool \<Rightarrow> prisma \<Rightarrow>
   string request_body \<Rightarrow> response \<times> prisma" where
  "request_otp_POST now ev randomBytes sent db body =
     (case body of
        Malformed \<Rightarrow> (JsonError 500 (Some ''Internal server error''), db)
      | Rejected \<Rightarrow> (JsonError 400 (Some ''Invalid email format''), db)
      | Parsed e \<Rightarrow>
          let acc = canAccessSurvey db e in
          if \<not> allowed acc then (JsonError 403 (reason acc), db)
          else
            (case findUniqueInvitedUser db e of
               None \<Rightarrow> (JsonError 404 (Some ''Email not authorized for this survey''), db)
             | Some invited \<Rightarrow>
                 if hasTaken invited
                   then (JsonError 409 (Some ''You have already completed this survey''), db)
                 else
                   let code = generateOTP randomBytes;
                       expiry = now + 10 * 60 * 1000;
                       db' = updateInvitedUser db e
                               (\<lambda>u. u\<lparr>otpCode := Some code, otpExpiry := Some expiry,
                                      remindersSent := 0\<rparr>);
                       emailSent =
                         (if NODE_ENV ev = ''production'' \<and> \<not> falsy_string (RESEND_API_KEY ev)
                          then sent else True)
                   in if \<not> emailSent
                      then (JsonError 500 (Some ''Failed to send access code. Please try again.''), db')
                      else (OtpSent (if NODE_ENV ev = ''development'' then Some code else None),
                            db')))"

subsection \<open>app/api/admin/toggle-production/route.ts\<close>

text \<open>What \<open>getSessionFromRequest\<close> returns: the verified claims of the session cookie,
  or null.\<close>

record session =
  claimEmail :: string
  claimType :: string

text \<open>The JSON body of the toggle request, read through \<open>ToggleSchema\<close>: its
  \<open>confirmation\<close> field when that is a string.\<close>

record toggle_body =
  confirmation :: "string option"

definition ToggleSchema_safeParse :: "toggle_body \<Rightarrow> bool" where
  "ToggleSchema_safeParse b = (confirmation b = Some ''PRODUCTION'')"

definition resetInvitedUser :: "InvitedUser \<Rightarrow> InvitedUser" where
  "resetInvitedUser u = u\<lparr>hasTaken := False, consented := False, otpCode := None, otpExpiry := None\<rparr>"

definition toggle_production_POST ::
  "date \<Rightarrow> prisma \<Rightarrow> session option \<Rightarrow> toggle_body request_body \<Rightarrow> response \<times> prisma" where
  "toggle_production_POST now db sess body =
     (case sess of
        None \<Rightarrow> (JsonError 401 (Some ''Unauthorized''), db)
      | Some s \<Rightarrow>
          (case body of
             Malformed \<Rightarrow> (JsonError 500 (Some ''Failed to toggle production mode''), db)
           | Rejected \<Rightarrow> (JsonError 400 (Some ''Must type PRODUCTION to confirm''), db)
           | Parsed b \<Rightarrow>
               if \<not> ToggleSchema_safeParse b
                 then (JsonError 400 (Some ''Must type PRODUCTION to confirm''), db)
               else if (case findFirst (systemSettings db) of
                          None \<Rightarrow> False | Some currentSettings \<Rightarrow> productionMode currentSettings)
                 then (JsonError 400 (Some ''Already in production mode''), db)
               else
                 (ProductionActivated (length (surveyResponse db)) (length (invitedUser db))
                    (claimEmail s) now,
                  db\<lparr>surveyResponse := [],
                     invitedUser := map resetInvitedUser (invitedUser db),
                     systemSettings :=
                       map (\<lambda>r. r\<lparr>productionMode := True, toggledAt := Some now,
                                   toggledBy := Some (claimEmail s)\<rparr>)
                         (systemSettings db)\<rparr>)))"

section \<open>An invariant of the store\<close>

text \<open>No invitation holds the empty string as its code: the handlers write \<open>otpCode\<close>
  only as what \<open>generateOTP\<close> returns or as null.\<close>

definition stored_codes_nonempty :: "prisma \<Rightarrow> bool" where
  "stored_codes_nonempty db = list_all (\<lambda>u. otpCode u \<noteq> Some []) (invitedUser db)"

section \<open>A sample store\<close>

text \<open>One invitation with an outstanding code, no administrator, normal mode and one
  submission: the concrete state at which the theorems below are instantiated.\<close>

definition sample_user :: InvitedUser where
  "sample_user =
     \<lparr>email = ''teacher@school.org'', group = ''Teachers'', hasTaken = False,
      otpCode = Some ''123456'', otpExpiry = Some 600000, consented = False, remindersSent = 3\<rparr>"

definition sample_db :: prisma where
  "sample_db =
     \<lparr>invitedUser = [sample_user],
      adminUser = [],
      systemSettings = [\<lparr>productionMode = False, toggledAt = None, toggledBy = None\<rparr>],
      surveyResponse = [\<lparr>responseEmail = ''teacher@school.org'', responseGroup = ''Teachers''\<rparr>]\<rparr>"

definition sample_admin :: session where
  "sample_admin = \<lparr>claimEmail = ''admin@example.com'', claimType = ''admin''\<rparr>"

definition sample_request :: "string \<Rightarrow> VerifyOTPData" where
  "sample_request code = \<lparr>reqEmail = ''teacher@school.org'', reqCode = code, reqConsented = True\<rparr>"

section \<open>Theorems\<close>

subsection \<open>validateOTP\<close>

lemma validateOTP_cases:
  "validateOTP now providedCode storedCode expiry attempts =
     (if attempts \<ge> 5 then \<lparr>valid = False, error = Some ''Too many failed attempts''\<rparr>
      else if storedCode = None \<or> storedCode = Some [] \<or> expiry = None
        then \<lparr>valid = False, error = Some ''No valid OTP found''\<rparr>
      else if now > the expiry then \<lparr>valid = False, error = Some ''OTP has expired''\<rparr>
      else if providedCode \<noteq> the storedCode
        then \<lparr>valid = False, error = Some ''Invalid OTP code''\<rparr>
      else \<lparr>valid = True, error = None\<rparr>)"
  by (cases storedCode) (simp_all add: validateOTP_def falsy_string_def)

text \<open>
  Claim C1. For every submitted code, expiry and attempt count, and every stored code the
  store can hold (null or a non-empty string, see \<open>stored_codes_nonempty\<close> and its
  preservation by the handlers below), \<open>validateOTP\<close> runs four checks in this order and
  returns the outcome of the first that fires: five or more attempts give ``Too many failed
  attempts'' whatever the other arguments are; otherwise a null stored code or a null
  expiry gives ``No valid OTP found''; otherwise a clock past the expiry gives ``OTP has
  expired''; otherwise a submitted code different from the stored one gives ``Invalid OTP
  code''; otherwise the result is valid with a null error.
\<close>

theorem validateOTP_checks_in_order:
  assumes "storedCode \<noteq> Some []"
  shows "validateOTP now providedCode storedCode expiry attempts =
     (if attempts \<ge> 5 then \<lparr>valid = False, error = Some ''Too many failed attempts''\<rparr>
      else if storedCode = None \<or> expiry = None
        then \<lparr>valid = False, error = Some ''No valid OTP found''\<rparr>
      else if now > the expiry then \<lparr>valid = False, error = Some ''OTP has expired''\<rparr>
      else if providedCode \<noteq> the storedCode
        then \<lparr>valid = False, error = Some ''Invalid OTP code''\<rparr>
      else \<lparr>valid = True, error = None\<rparr>)"
  using assms by (simp add: validateOTP_cases)

theorem validateOTP_checks_in_order_witness:
  "validateOTP 1000 ''123456'' (Some ''123456'') (Some 600000) 0 = \<lparr>valid = True, error = None\<rparr>
   \<and> validateOTP 1000 ''123456'' (Some ''654321'') (Some 600000) 0
       = \<lparr>valid = False, error = Some ''Invalid OTP code''\<rparr>
   \<and> validateOTP 700000 ''123456'' (Some ''123456'') (Some 600000) 0
       = \<lparr>valid = False, error = Some ''OTP has expired''\<rparr>
   \<and> validateOTP 1000 ''123456'' None None 0
       = \<lparr>valid = False, error = Some ''No valid OTP found''\<rparr>
   \<and> validateOTP 700000 ''123456'' None None 5
       = \<lparr>valid = False, error = Some ''Too many failed attempts''\<rparr>"
  using validateOTP_checks_in_order [of "Some ''123456''" 1000 "''123456''" "Some 600000" 0]
    validateOTP_checks_in_order [of "Some ''654321''" 1000 "''123456''" "Some 600000" 0]
    validateOTP_checks_in_order [of "Some ''123456''" 700000 "''123456''" "Some 600000" 0]
    validateOTP_checks_in_order [of None 1000 "''123456''" None 0]
    validateOTP_checks_in_order [of None 700000 "''123456''" None 5]
  by simp

subsection \<open>canAccessSurvey\<close>

lemma isSiteAdmin_iff: "isSiteAdmin db e \<longleftrightarrow> e \<in> adminEmail ` set (adminUser db)"
  by (auto simp: isSiteAdmin_def findUniqueAdminUser_def find_None_iff)

lemma getProductionMode_first_row:
  "getProductionMode db = (case systemSettings db of [] \<Rightarrow> False | r # _ \<Rightarrow> productionMode r)"
  by (simp add: getProductionMode_def findFirst_def split: list.splits)

text \<open>
  Claim C2. \<open>canAccessSurvey\<close> looks the email up in the administrator table first: an
  email found there is denied with the fixed administrator reason, whatever the settings
  table holds and whether or not the email ends in \<open>@example.com\<close>. Only an email that is
  not an administrator's is denied for being a test account in production mode, and every
  other email is allowed.
\<close>

theorem canAccessSurvey_policy:
  "canAccessSurvey db e =
     (if e \<in> adminEmail ` set (adminUser db)
        then \<lparr>allowed = False, reason = Some admin_reason\<rparr>
      else if (case systemSettings db of [] \<Rightarrow> False | r # _ \<Rightarrow> productionMode r)
              \<and> suffix ''@example.com'' e
        then \<lparr>allowed = False, reason = Some test_account_reason\<rparr>
      else \<lparr>allowed = True, reason = None\<rparr>)
   \<and> (\<forall>ss. e \<in> adminEmail ` set (adminUser db) \<longrightarrow>
          canAccessSurvey (db\<lparr>systemSettings := ss\<rparr>) e
            = \<lparr>allowed = False, reason = Some admin_reason\<rparr>)"
  unfolding canAccessSurvey_def isSiteAdmin_iff getProductionMode_first_row isTestAccount_def
  by simp

theorem canAccessSurvey_policy_witness:
  "canAccessSurvey
     \<lparr>invitedUser = [],
      adminUser = [\<lparr>adminEmail = ''admin@example.com'', adminName = ''Admin'', adminRole = ''admin''\<rparr>],
      systemSettings = [\<lparr>productionMode = False, toggledAt = None, toggledBy = None\<rparr>],
      surveyResponse = []\<rparr> ''admin@example.com''
     = \<lparr>allowed = False, reason = Some admin_reason\<rparr>
   \<and> suffix ''@example.com'' ''admin@example.com''"
  using canAccessSurvey_policy
    [of "\<lparr>invitedUser = [],
          adminUser = [\<lparr>adminEmail = ''admin@example.com'', adminName = ''Admin'', adminRole = ''admin''\<rparr>],
          systemSettings = [\<lparr>productionMode = False, toggledAt = None, toggledBy = None\<rparr>],
          surveyResponse = []\<rparr>"
        "''admin@example.com''"]
  by (simp add: suffix_def)

subsection \<open>RateLimiter.check\<close>

lemma check_fresh:
  "attempts k = None \<or> (\<exists>r. attempts k = Some r \<and> now > resetTime r) \<Longrightarrow>
   check now attempts k limit w = (True, attempts(k \<mapsto> \<lparr>count = 1, resetTime = now + w\<rparr>))"
  by (auto simp: check_def)

lemma check_within:
  "attempts k = Some r \<Longrightarrow> now \<le> resetTime r \<Longrightarrow> count r < limit \<Longrightarrow>
   check now attempts k limit w = (True, attempts(k \<mapsto> r\<lparr>count := count r + 1\<rparr>))"
  by (simp add: check_def)

lemma check_full:
  "attempts k = Some r \<Longrightarrow> now \<le> resetTime r \<Longrightarrow> limit \<le> count r \<Longrightarrow>
   check now attempts k limit w = (False, attempts)"
  by (simp add: check_def)

lemma six_rapid_calls:
  assumes fresh: "attempts k = None \<or> (\<exists>r. attempts k = Some r \<and> t1 > resetTime r)"
    and rapid: "t2 \<le> t1 + 60000" "t3 \<le> t1 + 60000" "t4 \<le> t1 + 60000"
      "t5 \<le> t1 + 60000" "t6 \<le> t1 + 60000"
    and elapsed: "t7 > t1 + 60000"
  shows "fst (checks attempts k 5 60000 [t1, t2, t3, t4, t5, t6, t7]) =
           [True, True, True, True, True, False, True]"
proof -
  have first: "check t1 attempts k 5 60000 =
      (True, attempts(k \<mapsto> \<lparr>count = 1, resetTime = t1 + 60000\<rparr>))"
    using fresh by (rule check_fresh)
  show ?thesis
    using rapid elapsed by (simp add: first) (simp add: check_def)
qed

text \<open>
  Claim C6. \<open>check\<close> is a fixed window. On the first call for a key, or on a call whose
  clock is past the stored window end, it stores count 1 with the window end
  \<open>now + windowMs\<close> and returns true. Within the window it increments the count and returns
  true while the count is below the limit, and returns false with the map unchanged once
  the count has reached the limit. Seven calls of \<open>check(k, 5, 60000)\<close>, the first on a
  fresh or lapsed key, the next five no later than the window end it sets and the seventh
  after that end, return true five times, then false, then true.
\<close>

theorem check_fixed_window:
  "(attempts k = None \<or> (\<exists>r. attempts k = Some r \<and> now > resetTime r) \<longrightarrow>
      check now attempts k limit w
        = (True, attempts(k \<mapsto> \<lparr>count = 1, resetTime = now + w\<rparr>)))
   \<and> (\<forall>r. attempts k = Some r \<and> now \<le> resetTime r \<and> count r < limit \<longrightarrow>
          check now attempts k limit w = (True, attempts(k \<mapsto> r\<lparr>count := count r + 1\<rparr>)))
   \<and> (\<forall>r. attempts k = Some r \<and> now \<le> resetTime r \<and> limit \<le> count r \<longrightarrow>
          check now attempts k limit w = (False, attempts))
   \<and> ((attempts k = None \<or> (\<exists>r. attempts k = Some r \<and> now > resetTime r))
        \<and> t2 \<le> now + 60000 \<and> t3 \<le> now + 60000 \<and> t4 \<le> now + 60000
        \<and> t5 \<le> now + 60000 \<and> t6 \<le> now + 60000 \<and> now + 60000 < t7 \<longrightarrow>
        fst (checks attempts k 5 60000 [now, t2, t3, t4, t5, t6, t7])
          = [True, True, True, True, True, False, True])"
  using check_fresh [of attempts k now limit w] check_within [of attempts k _ now limit w]
    check_full [of attempts k _ now limit w] six_rapid_calls [of attempts k now t2 t3 t4 t5 t6 t7]
  by blast

theorem check_fixed_window_witness:
  "fst (checks Map.empty ''203.0.113.7'' 5 60000 [0, 10, 20, 30, 40, 50, 60001])
     = [True, True, True, True, True, False, True]
   \<and> check 0 Map.empty ''203.0.113.7'' 5 60000
       = (True, [''203.0.113.7'' \<mapsto> \<lparr>count = 1, resetTime = 60000\<rparr>])
   \<and> check 7 [''203.0.113.7'' \<mapsto> \<lparr>count = 4, resetTime = 60000\<rparr>] ''203.0.113.7'' 5 60000
       = (True, [''203.0.113.7'' \<mapsto> \<lparr>count = 5, resetTime = 60000\<rparr>])
   \<and> check 8 [''203.0.113.7'' \<mapsto> \<lparr>count = 5, resetTime = 60000\<rparr>] ''203.0.113.7'' 5 60000
       = (False, [''203.0.113.7'' \<mapsto> \<lparr>count = 5, resetTime = 60000\<rparr>])"
  using check_fixed_window [of Map.empty "''203.0.113.7''" 0 5 60000 10 20 30 40 50 60001]
    check_fixed_window
      [of "[''203.0.113.7'' \<mapsto> \<lparr>count = 4, resetTime = 60000\<rparr>]" "''203.0.113.7''" 7 5 60000]
    check_fixed_window
      [of "[''203.0.113.7'' \<mapsto> \<lparr>count = 5, resetTime = 60000\<rparr>]" "''203.0.113.7''" 8 5 60000]
  by (simp del: checks.simps)

subsection \<open>The verify-otp and toggle-production handlers\<close>

lemma or_zero_id: "or_zero n = n"
  by (simp add: or_zero_def)

lemma find_updated_row:
  assumes "find (\<lambda>u. email u = e) rows = Some user" and "\<And>u. email (f u) = email u"
  shows "find (\<lambda>u. email u = e) (map (\<lambda>u. if email u = e then f u else u) rows) = Some (f user)"
  using assms by (induction rows) (auto split: if_splits)

lemma findUnique_after_update:
  assumes "findUniqueInvitedUser db e = Some user" and "\<And>u. email (f u) = email u"
  shows "findUniqueInvitedUser (updateInvitedUser db e f) e = Some (f user)"
  using assms by (simp add: findUniqueInvitedUser_def updateInvitedUser_def find_updated_row)

lemma canAccessSurvey_after_update:
  "canAccessSurvey (updateInvitedUser db e f) e' = canAccessSurvey db e'"
  by (simp add: canAccessSurvey_def isSiteAdmin_def findUniqueAdminUser_def
      getProductionMode_def updateInvitedUser_def)

lemma verify_reaches_validation:
  assumes "body = Parsed d" "allowed (canAccessSurvey db (reqEmail d))" "reqConsented d"
    "findUniqueInvitedUser db (reqEmail d) = Some user"
  shows "verify_otp_POST now db body =
     (let v = validateOTP now (reqCode d) (otpCode user) (otpExpiry user) (remindersSent user)
      in if \<not> valid v
         then (JsonError 400 (error v),
               updateInvitedUser db (reqEmail d) (\<lambda>u. u\<lparr>remindersSent := remindersSent user + 1\<rparr>))
         else (Verified (group user)
                 \<lparr>sessionEmail = email user, sessionGroup = group user, sessionConsented = True\<rparr>,
               updateInvitedUser db (reqEmail d)
                 (\<lambda>u. u\<lparr>consented := True, otpCode := None, otpExpiry := None, remindersSent := 0\<rparr>)))"
  using assms by (simp add: verify_otp_POST_def or_zero_id Let_def)


text \<open>
  Claim C7. In the code-redemption handler, once the request has passed the access check,
  the consent check and the lookup of the invitation, an invalid outcome of \<open>validateOTP\<close>
  leaves the invitation with its attempt counter increased by one, and a valid outcome
  leaves it with the stored code and the expiry null and the attempt counter zero. The code
  is single-use: the same request sent again, at any time, is refused with ``No valid OTP
  found''.
\<close>

theorem verify_otp_counter_and_clear:
  assumes "body = Parsed d" "allowed (canAccessSurvey db (reqEmail d))" "reqConsented d"
    "findUniqueInvitedUser db (reqEmail d) = Some user"
  shows "(\<not> valid (validateOTP now (reqCode d) (otpCode user) (otpExpiry user) (remindersSent user)) \<longrightarrow>
           findUniqueInvitedUser (snd (verify_otp_POST now db body)) (reqEmail d)
             = Some (user\<lparr>remindersSent := remindersSent user + 1\<rparr>))
       \<and> (valid (validateOTP now (reqCode d) (otpCode user) (otpExpiry user) (remindersSent user)) \<longrightarrow>
           findUniqueInvitedUser (snd (verify_otp_POST now db body)) (reqEmail d)
             = Some (user\<lparr>consented := True, otpCode := None, otpExpiry := None, remindersSent := 0\<rparr>)
           \<and> (\<forall>now'. fst (verify_otp_POST now' (snd (verify_otp_POST now db body)) body)
                 = JsonError 400 (Some ''No valid OTP found'')))"
proof (intro conjI impI allI)
  assume inv: "\<not> valid (validateOTP now (reqCode d) (otpCode user) (otpExpiry user) (remindersSent user))"
  show "findUniqueInvitedUser (snd (verify_otp_POST now db body)) (reqEmail d)
             = Some (user\<lparr>remindersSent := remindersSent user + 1\<rparr>)"
    using inv assms(4) by (simp add: verify_reaches_validation [OF assms] findUnique_after_update)
next
  assume ok: "valid (validateOTP now (reqCode d) (otpCode user) (otpExpiry user) (remindersSent user))"
  let ?db' = "snd (verify_otp_POST now db body)"
  let ?user' = "user\<lparr>consented := True, otpCode := None, otpExpiry := None, remindersSent := 0\<rparr>"
  have db': "?db' = updateInvitedUser db (reqEmail d)
                 (\<lambda>u. u\<lparr>consented := True, otpCode := None, otpExpiry := None, remindersSent := 0\<rparr>)"
    using ok by (simp add: verify_reaches_validation [OF assms])
  show found: "findUniqueInvitedUser ?db' (reqEmail d) = Some ?user'"
    using assms(4) by (simp add: db' findUnique_after_update)
  fix now'
  have acc: "allowed (canAccessSurvey ?db' (reqEmail d))"
    using assms(2) by (simp add: db' canAccessSurvey_after_update)
  show "fst (verify_otp_POST now' ?db' body) = JsonError 400 (Some ''No valid OTP found'')"
    by (simp add: verify_reaches_validation [OF assms(1) acc assms(3) found] validateOTP_def
        falsy_string_def)
qed

lemma map_field_update:
  assumes "\<And>u. g (f u) = g u"
  shows "map g (map (\<lambda>u. if P u then f u else u) rows) = map g rows"
  using assms by (induction rows) auto

text \<open>
  Claim C10. On an invalid outcome the handler writes the attempt counter and nothing else:
  the stored code, expiry, consent flag and completion flag of every invitation are what
  they were, as are the email and group columns and the three other tables, and the
  invitation of the request differs from before in its counter alone, which is one higher.
  So a failed attempt does not invalidate the outstanding code: as long as the counter
  stays below five and the expiry has not passed, submitting the stored code afterwards is
  accepted.
\<close>

theorem verify_otp_failure_frame:
  assumes "body = Parsed d" "allowed (canAccessSurvey db (reqEmail d))" "reqConsented d"
    "findUniqueInvitedUser db (reqEmail d) = Some user"
    "\<not> valid (validateOTP now (reqCode d) (otpCode user) (otpExpiry user) (remindersSent user))"
  shows "map otpCode (invitedUser (snd (verify_otp_POST now db body))) = map otpCode (invitedUser db)
       \<and> map otpExpiry (invitedUser (snd (verify_otp_POST now db body))) = map otpExpiry (invitedUser db)
       \<and> map consented (invitedUser (snd (verify_otp_POST now db body))) = map consented (invitedUser db)
       \<and> map hasTaken (invitedUser (snd (verify_otp_POST now db body))) = map hasTaken (invitedUser db)
       \<and> map email (invitedUser (snd (verify_otp_POST now db body))) = map email (invitedUser db)
       \<and> map group (invitedUser (snd (verify_otp_POST now db body))) = map group (invitedUser db)
       \<and> adminUser (snd (verify_otp_POST now db body)) = adminUser db
       \<and> systemSettings (snd (verify_otp_POST now db body)) = systemSettings db
       \<and> surveyResponse (snd (verify_otp_POST now db body)) = surveyResponse db
       \<and> findUniqueInvitedUser (snd (verify_otp_POST now db body)) (reqEmail d)
            = Some (user\<lparr>remindersSent := remindersSent user + 1\<rparr>)
       \<and> (\<forall>now' c x. otpCode user = Some c \<and> c \<noteq> [] \<and> otpExpiry user = Some x \<and> now' \<le> x
              \<and> remindersSent user + 1 < 5 \<longrightarrow>
            fst (verify_otp_POST now' (snd (verify_otp_POST now db body)) (Parsed (d\<lparr>reqCode := c\<rparr>)))
              = Verified (group user)
                  \<lparr>sessionEmail = email user, sessionGroup = group user, sessionConsented = True\<rparr>)"
proof -
  let ?db' = "snd (verify_otp_POST now db body)"
  have db': "?db' = updateInvitedUser db (reqEmail d) (\<lambda>u. u\<lparr>remindersSent := remindersSent user + 1\<rparr>)"
    using assms(5) by (simp add: verify_reaches_validation [OF assms(1-4)])
  have found: "findUniqueInvitedUser ?db' (reqEmail d) = Some (user\<lparr>remindersSent := remindersSent user + 1\<rparr>)"
    using assms(4) by (simp add: db' findUnique_after_update)
  have acc: "allowed (canAccessSurvey ?db' (reqEmail d))"
    using assms(2) by (simp add: db' canAccessSurvey_after_update)
  have later: "fst (verify_otp_POST now' ?db' (Parsed (d\<lparr>reqCode := c\<rparr>)))
              = Verified (group user)
                  \<lparr>sessionEmail = email user, sessionGroup = group user, sessionConsented = True\<rparr>"
    if "otpCode user = Some c" "c \<noteq> []" "otpExpiry user = Some x" "now' \<le> x"
       "remindersSent user + 1 < 5" for now' c x
    using verify_reaches_validation [of "Parsed (d\<lparr>reqCode := c\<rparr>)" "d\<lparr>reqCode := c\<rparr>" ?db'
        "user\<lparr>remindersSent := remindersSent user + 1\<rparr>" now'] acc assms(3) found that
    by (simp add: Let_def validateOTP_def falsy_string_def)
  show ?thesis
    using found later
    by (simp add: db' updateInvitedUser_def map_field_update)
qed

lemma toggle_success:
  assumes "sess = Some s" "body = Parsed b" "confirmation b = Some ''PRODUCTION''"
    "\<not> getProductionMode db"
  shows "toggle_production_POST now db sess body =
     (ProductionActivated (length (surveyResponse db)) (length (invitedUser db)) (claimEmail s) now,
      db\<lparr>surveyResponse := [],
         invitedUser := map resetInvitedUser (invitedUser db),
         systemSettings :=
           map (\<lambda>r. r\<lparr>productionMode := True, toggledAt := Some now, toggledBy := Some (claimEmail s)\<rparr>)
             (systemSettings db)\<rparr>)"
  using assms
  by (simp add: toggle_production_POST_def ToggleSchema_safeParse_def getProductionMode_def)

text \<open>
  Claim C3, as the code has it. When the mode transition succeeds (the caller holds an
  administrator's session, the body's confirmation is exactly \<open>PRODUCTION\<close>, the mode
  is not yet production), it deletes every survey submission, resets the completion flag,
  consent flag, stored code and expiry of every invitation to their defaults, and flips
  the System Mode record to production with the clock and the acting administrator's
  email recorded. The attempt counter of an invitation is not among the columns the
  handler resets: it stays as it was, like the email and the group. The theorem is about
  a store that holds its System Mode record.
\<close>

theorem toggle_production_effects:
  assumes "sess = Some s" "claimType s = ''admin''"
    "body = Parsed b" "confirmation b = Some ''PRODUCTION''"
    "systemSettings db \<noteq> []" "\<not> getProductionMode db"
  shows "fst (toggle_production_POST now db sess body)
           = ProductionActivated (length (surveyResponse db)) (length (invitedUser db)) (claimEmail s) now
       \<and> surveyResponse (snd (toggle_production_POST now db sess body)) = []
       \<and> (\<forall>u \<in> set (invitedUser (snd (toggle_production_POST now db sess body))).
             \<not> hasTaken u \<and> \<not> consented u \<and> otpCode u = None \<and> otpExpiry u = None)
       \<and> map email (invitedUser (snd (toggle_production_POST now db sess body))) = map email (invitedUser db)
       \<and> map group (invitedUser (snd (toggle_production_POST now db sess body))) = map group (invitedUser db)
       \<and> map remindersSent (invitedUser (snd (toggle_production_POST now db sess body)))
            = map remindersSent (invitedUser db)
       \<and> getProductionMode (snd (toggle_production_POST now db sess body))
       \<and> (\<forall>r \<in> set (systemSettings (snd (toggle_production_POST now db sess body))).
             productionMode r \<and> toggledAt r = Some now \<and> toggledBy r = Some (claimEmail s))
       \<and> length (systemSettings (snd (toggle_production_POST now db sess body)))
            = length (systemSettings db)
       \<and> adminUser (snd (toggle_production_POST now db sess body)) = adminUser db"
  unfolding toggle_success [OF assms(1) assms(3) assms(4) assms(6)]
  using assms(5)
  by (auto simp: resetInvitedUser_def getProductionMode_def findFirst_def comp_def split: list.splits)

text \<open>
  Claim C5. While the mode is production, a call of the mode transition changes nothing in
  the store, whatever the session and the body are, and its response is an error; a call
  that carries a session and the exact confirmation is refused with ``Already in
  production mode''.
\<close>

theorem toggle_production_already_restricted:
  assumes "getProductionMode db"
  shows "snd (toggle_production_POST now db sess body) = db
       \<and> (\<exists>st msg. fst (toggle_production_POST now db sess body) = JsonError st msg)
       \<and> (\<forall>s b. sess = Some s \<and> body = Parsed b \<and> confirmation b = Some ''PRODUCTION'' \<longrightarrow>
             fst (toggle_production_POST now db sess body)
               = JsonError 400 (Some ''Already in production mode''))"
  using assms
  by (auto simp: toggle_production_POST_def getProductionMode_def ToggleSchema_safeParse_def
      split: option.splits request_body.splits)


lemma sample_access: "allowed (canAccessSurvey sample_db ''teacher@school.org'')"
  by (simp add: canAccessSurvey_def isSiteAdmin_def findUniqueAdminUser_def getProductionMode_def
      findFirst_def sample_db_def)

lemma sample_found: "findUniqueInvitedUser sample_db ''teacher@school.org'' = Some sample_user"
  by (simp add: findUniqueInvitedUser_def sample_db_def sample_user_def)

theorem verify_otp_counter_and_clear_witness:
  "findUniqueInvitedUser (snd (verify_otp_POST 1000 sample_db (Parsed (sample_request ''000000''))))
     ''teacher@school.org'' = Some (sample_user\<lparr>remindersSent := 4\<rparr>)
   \<and> findUniqueInvitedUser (snd (verify_otp_POST 1000 sample_db (Parsed (sample_request ''123456''))))
     ''teacher@school.org''
       = Some (sample_user\<lparr>consented := True, otpCode := None, otpExpiry := None, remindersSent := 0\<rparr>)"
  using verify_otp_counter_and_clear
      [where body = "Parsed (sample_request ''000000'')" and d = "sample_request ''000000''"
        and db = sample_db and user = sample_user and now = 1000]
    verify_otp_counter_and_clear
      [where body = "Parsed (sample_request ''123456'')" and d = "sample_request ''123456''"
        and db = sample_db and user = sample_user and now = 1000]
    sample_access sample_found
  by (simp add: sample_request_def validateOTP_def falsy_string_def sample_user_def)

theorem verify_otp_failure_frame_witness:
  "map otpCode (invitedUser (snd (verify_otp_POST 1000 sample_db (Parsed (sample_request ''000000'')))))
     = [Some ''123456'']
   \<and> map otpExpiry (invitedUser (snd (verify_otp_POST 1000 sample_db (Parsed (sample_request ''000000'')))))
     = [Some 600000]
   \<and> fst (verify_otp_POST 2000
        (snd (verify_otp_POST 1000 sample_db (Parsed (sample_request ''000000''))))
        (Parsed (sample_request ''123456'')))
     = Verified ''Teachers''
         \<lparr>sessionEmail = ''teacher@school.org'', sessionGroup = ''Teachers'', sessionConsented = True\<rparr>"
proof -
  have fails: "\<not> valid (validateOTP 1000 (reqCode (sample_request ''000000'')) (otpCode sample_user)
      (otpExpiry sample_user) (remindersSent sample_user))"
    by (simp add: sample_request_def validateOTP_def falsy_string_def sample_user_def)
  have acc: "allowed (canAccessSurvey sample_db (reqEmail (sample_request ''000000'')))"
    using sample_access by (simp add: sample_request_def)
  have found: "findUniqueInvitedUser sample_db (reqEmail (sample_request ''000000'')) = Some sample_user"
    using sample_found by (simp add: sample_request_def)
  have req: "(sample_request ''000000'')\<lparr>reqCode := ''123456''\<rparr> = sample_request ''123456''"
    by (simp add: sample_request_def)
  have fields: "map otpCode (invitedUser sample_db) = [Some ''123456'']"
    "map otpExpiry (invitedUser sample_db) = [Some 600000]"
    "otpCode sample_user = Some ''123456''" "otpExpiry sample_user = Some 600000"
    "remindersSent sample_user + 1 < 5" "group sample_user = ''Teachers''"
    "email sample_user = ''teacher@school.org''"
    by (simp_all add: sample_db_def sample_user_def)
  from verify_otp_failure_frame [OF refl acc _ found fails]
  show ?thesis
    using fields req by (simp add: sample_request_def)
qed

theorem toggle_production_effects_witness:
  "toggle_production_POST 700000 sample_db (Some sample_admin) (Parsed \<lparr>confirmation = Some ''PRODUCTION''\<rparr>)
     = (ProductionActivated 1 1 ''admin@example.com'' 700000,
        \<lparr>invitedUser = [sample_user\<lparr>hasTaken := False, consented := False, otpCode := None,
                          otpExpiry := None\<rparr>],
         adminUser = [],
         systemSettings = [\<lparr>productionMode = True, toggledAt = Some 700000,
                            toggledBy = Some ''admin@example.com''\<rparr>],
         surveyResponse = []\<rparr>)"
proof -
  have normal: "\<not> getProductionMode sample_db"
    by (simp add: getProductionMode_def findFirst_def sample_db_def)
  have admin: "claimType sample_admin = ''admin''"
    by (simp add: sample_admin_def)
  have row: "systemSettings sample_db \<noteq> []"
    by (simp add: sample_db_def)
  from toggle_production_effects [OF refl admin refl _ row normal,
      where b = "\<lparr>confirmation = Some ''PRODUCTION''\<rparr>" and now = 700000]
  have "fst (toggle_production_POST 700000 sample_db (Some sample_admin)
           (Parsed \<lparr>confirmation = Some ''PRODUCTION''\<rparr>))
      = ProductionActivated 1 1 ''admin@example.com'' 700000"
    by (simp add: sample_db_def sample_admin_def)
  then show ?thesis
    by (simp add: toggle_production_POST_def ToggleSchema_safeParse_def findFirst_def sample_db_def
        sample_admin_def resetInvitedUser_def)
qed

text \<open>
  The claim as stated fails on the attempt counter alone: an invitation with three failed
  attempts still has three after a successful transition.
\<close>

theorem toggle_keeps_attempt_counter_counterexample:
  "fst (toggle_production_POST 700000 sample_db (Some sample_admin)
          (Parsed \<lparr>confirmation = Some ''PRODUCTION''\<rparr>))
     = ProductionActivated 1 1 ''admin@example.com'' 700000
   \<and> map remindersSent
        (invitedUser (snd (toggle_production_POST 700000 sample_db (Some sample_admin)
           (Parsed \<lparr>confirmation = Some ''PRODUCTION''\<rparr>)))) = [3]"
  by (simp add: toggle_production_POST_def ToggleSchema_safeParse_def findFirst_def sample_db_def
      sample_admin_def resetInvitedUser_def sample_user_def)

theorem toggle_production_already_restricted_witness:
  "toggle_production_POST 800000
     (sample_db\<lparr>systemSettings := [\<lparr>productionMode = True, toggledAt = Some 700000,
                                     toggledBy = Some ''admin@example.com''\<rparr>]\<rparr>)
     (Some sample_admin) (Parsed \<lparr>confirmation = Some ''PRODUCTION''\<rparr>)
   = (JsonError 400 (Some ''Already in production mode''),
      sample_db\<lparr>systemSettings := [\<lparr>productionMode = True, toggledAt = Some 700000,
                                     toggledBy = Some ''admin@example.com''\<rparr>]\<rparr>)"
proof -
  let ?db = "sample_db\<lparr>systemSettings := [\<lparr>productionMode = True, toggledAt = Some 700000,
                                     toggledBy = Some ''admin@example.com''\<rparr>]\<rparr>"
  have restricted: "getProductionMode ?db"
    by (simp add: getProductionMode_def findFirst_def)
  from toggle_production_already_restricted [OF restricted,
      where now = 800000 and sess = "Some sample_admin"
        and body = "Parsed \<lparr>confirmation = Some ''PRODUCTION''\<rparr>"]
  show ?thesis
    by (simp add: prod_eq_iff)
qed

subsection \<open>generateOTP\<close>

lemma of_char_digit_char: "d < 10 \<Longrightarrow> (of_char (digit_char d) :: nat) = 48 + d"
  by (simp add: digit_char_def)

lemma is_digit_digit_char: "d < 10 \<Longrightarrow> is_digit (digit_char d)"
  by (simp add: is_digit_def of_char_digit_char)

lemma toString_digits: "list_all is_digit (toString n)"
proof (induction n rule: toString.induct)
  case (1 n)
  show ?case
  proof (cases "n < 10")
    case True
    then show ?thesis by (subst toString.simps) (simp add: is_digit_digit_char)
  next
    case False
    with 1 show ?thesis
      by (subst toString.simps) (simp add: is_digit_digit_char)
  qed
qed

lemma toString_length: "10 ^ k \<le> n \<Longrightarrow> n < 10 ^ Suc k \<Longrightarrow> length (toString n) = Suc k"
proof (induction k arbitrary: n)
  case 0
  then show ?case by (subst toString.simps) simp
next
  case (Suc k)
  have big: "\<not> n < 10"
  proof -
    have "(10::nat) \<le> 10 ^ Suc k" by simp
    from this Suc.prems(1) have "10 \<le> n" by (rule order_trans)
    then show ?thesis by simp
  qed
  have "10 ^ k \<le> n div 10" "n div 10 < 10 ^ Suc k"
    using Suc.prems by (simp_all add: less_mult_imp_div_less mult.commute div_le_mono2 Suc_leI le_div_geq)
  then have "length (toString (n div 10)) = Suc k" by (rule Suc.IH)
  with big show ?case
    by (subst toString.simps) simp
qed

lemma parseInt_snoc: "parseInt (s @ [c]) = 10 * parseInt s + (of_char c - 48)"
  by (simp add: parseInt_def)

lemma parseInt_toString: "parseInt (toString n) = n"
proof (induction n rule: toString.induct)
  case (1 n)
  show ?case
  proof (cases "n < 10")
    case True
    then show ?thesis by (subst toString.simps) (simp add: parseInt_def of_char_digit_char)
  next
    case False
    with 1 have "parseInt (toString (n div 10)) = n div 10" by simp
    with False show ?thesis
      by (subst toString.simps) (simp add: parseInt_snoc of_char_digit_char)
  qed
qed

lemma otp_number_range: "100000 \<le> otp_number num \<and> otp_number num \<le> 999999"
proof -
  have "unat num mod 900000 < 900000" by simp
  then show ?thesis unfolding otp_number_def by linarith
qed

text \<open>
  Claim C8. Whatever four bytes the random source returns, \<open>generateOTP\<close> returns a
  string of exactly six decimal digits (it matches \<open>^\d{6}$\<close>) whose value lies in
  [100000, 999999]; in particular, for every 32-bit number \<open>n\<close>,
  \<open>(n mod 900000) + 100000\<close> lies in that range and prints as six digits.
\<close>

theorem generateOTP_six_digits:
  "matches_six_digits (generateOTP buffer)
   \<and> 100000 \<le> parseInt (generateOTP buffer) \<and> parseInt (generateOTP buffer) \<le> 999999
   \<and> (\<forall>n :: 32 word. 100000 \<le> unat n mod 900000 + 100000 \<and> unat n mod 900000 + 100000 \<le> 999999
         \<and> otp_number n = unat n mod 900000 + 100000
         \<and> matches_six_digits (toString (otp_number n)))"
proof -
  have six: "matches_six_digits (toString (otp_number n))" for n
  proof -
    have "10 ^ 5 \<le> otp_number n" "otp_number n < 10 ^ Suc 5"
      using otp_number_range [of n] by simp_all
    then have "length (toString (otp_number n)) = Suc 5" by (rule toString_length)
    then show ?thesis by (simp add: matches_six_digits_def toString_digits)
  qed
  have range: "100000 \<le> unat n mod 900000 + 100000 \<and> unat n mod 900000 + 100000 \<le> 999999"
    for n :: "32 word"
    using otp_number_range [of n] unfolding otp_number_def .
  have parsed: "parseInt (generateOTP buffer) = otp_number (readUInt32BE buffer)"
    by (simp only: generateOTP_def parseInt_toString)
  have "matches_six_digits (generateOTP buffer)"
    unfolding generateOTP_def by (rule six)
  moreover have "100000 \<le> parseInt (generateOTP buffer) \<and> parseInt (generateOTP buffer) \<le> 999999"
    unfolding parsed by (rule otp_number_range)
  moreover have "\<forall>n :: 32 word. 100000 \<le> unat n mod 900000 + 100000
         \<and> unat n mod 900000 + 100000 \<le> 999999
         \<and> otp_number n = unat n mod 900000 + 100000
         \<and> matches_six_digits (toString (otp_number n))"
    using range six otp_number_def by blast
  ultimately show ?thesis by blast
qed

subsection \<open>hashEmail\<close>

lemma length_sha256_round: "length st = 8 \<Longrightarrow> length (sha256_round st kw) = 8"
proof -
  assume "length st = 8"
  then obtain a b c d e f g h where "st = [a, b, c, d, e, f, g, h]"
    by (auto simp: length_Suc_conv eval_nat_numeral)
  then show ?thesis by (cases kw) (simp add: Let_def)
qed

lemma length_foldl_round: "length st = 8 \<Longrightarrow> length (foldl sha256_round st kws) = 8"
  by (induction kws arbitrary: st) (simp_all add: length_sha256_round)

lemma length_compress: "length hs = 8 \<Longrightarrow> length (compress hs block) = 8"
  by (simp add: compress_def length_foldl_round)

lemma length_process: "length hs = 8 \<Longrightarrow> length (process n hs ws) = 8"
  by (induction n arbitrary: hs ws) (simp_all add: length_compress)

lemma length_sha256: "length (sha256 msg) = 8"
  by (simp add: sha256_def Let_def length_process sha256_H0_def)

lemma length_concat_hex32: "length (concat (map hex32 ws)) = 8 * length ws"
  by (induction ws) (simp_all add: hex32_def)

lemma length_digest_hex: "length (digest_hex s) = 64"
  by (simp add: digest_hex_def length_concat_hex32 length_sha256)

lemma hex_char_table: "list_all (\<lambda>d. hex_char d \<in> set ''0123456789abcdef'') [0..<16]"
  by code_simp

lemma hex_char_range:
  assumes "d < 16"
  shows "hex_char d \<in> set ''0123456789abcdef''"
proof -
  have "\<forall>d \<in> set [0..<16]. hex_char d \<in> set ''0123456789abcdef''"
    using hex_char_table by (simp only: list_all_iff)
  moreover have "d \<in> set [0..<16]"
    using assms by simp
  ultimately show ?thesis by blast
qed

lemma nibble_bound: "unat (w AND 15 :: 32 word) < 16"
proof -
  have "unat (w AND 15) \<le> unat (15 :: 32 word)"
    by (rule word_and_le1 [THEN word_le_nat_alt [THEN iffD1]])
  then show ?thesis by simp
qed

lemma set_hex32: "set (hex32 w) \<subseteq> set ''0123456789abcdef''"
proof
  fix c
  assume "c \<in> set (hex32 w)"
  then obtain i where "c = hex_char (unat (drop_bit (4 * i) w AND 15))"
    unfolding hex32_def by (auto simp only: set_map)
  then show "c \<in> set ''0123456789abcdef''"
    using hex_char_range [OF nibble_bound] by simp
qed

lemma set_concat_hex32: "set (concat (map hex32 ws)) \<subseteq> set ''0123456789abcdef''"
proof (induction ws)
  case Nil
  then show ?case by simp
next
  case (Cons w ws)
  have "set (concat (map hex32 (w # ws))) = set (hex32 w) \<union> set (concat (map hex32 ws))"
    by simp
  with Cons set_hex32 [of w] show ?case by blast
qed

lemma set_digest_hex: "set (digest_hex s) \<subseteq> set ''0123456789abcdef''"
  unfolding digest_hex_def by (rule set_concat_hex32)

lemma set_hashEmail: "set (hashEmail env e) \<subseteq> set ''0123456789abcdef''"
proof -
  have "set (hashEmail env e) \<subseteq> set (digest_hex (e @ salt_of env))"
    unfolding hashEmail_def by (rule set_take_subset)
  with set_digest_hex show ?thesis by blast
qed

lemma sublist_set: "sublist xs ys \<Longrightarrow> set xs \<subseteq> set ys"
  by (auto simp: sublist_def)

lemma hashEmail_token_general:
  "length (hashEmail env e) = 16
   \<and> set (hashEmail env e) \<subseteq> set ''0123456789abcdef''
   \<and> (\<forall>env'. salt_of env' = salt_of env \<longrightarrow> hashEmail env' e = hashEmail env e)
   \<and> ((\<exists>c \<in> set e. c \<notin> set ''0123456789abcdef'') \<longrightarrow> \<not> includes_str (hashEmail env e) e)"
proof -
  have "length (hashEmail env e) = 16"
    by (simp add: hashEmail_def length_digest_hex)
  moreover have "\<not> includes_str (hashEmail env e) e"
    if "\<exists>c \<in> set e. c \<notin> set ''0123456789abcdef''"
    using that set_hashEmail [of env e] sublist_set [of e "hashEmail env e"]
    unfolding includes_str_def by blast
  moreover have "\<forall>env'. salt_of env' = salt_of env \<longrightarrow> hashEmail env' e = hashEmail env e"
    by (simp add: hashEmail_def)
  ultimately show ?thesis
    using set_hashEmail [of env e] by blast
qed

text \<open>The token of \<open>test@example.com\<close> under the default salt, as Node computes it.\<close>

lemma hashEmail_test_vector: "hashEmail None ''test@example.com'' = ''a5a49c3a615ddf03''"
  by code_simp

text \<open>
  Claim C9. \<open>hashEmail\<close> is deterministic: its token depends on the email and the salt
  alone, so the same email and salt always give the same token, whatever else the
  environment holds. The token is always 16 characters long, and for an email address (an
  input with an \<open>@\<close>) it never contains the input as a substring.
\<close>

theorem hashEmail_anonymizes_email:
  assumes "CHR ''@'' \<in> set e"
  shows "length (hashEmail env e) = 16
       \<and> (\<forall>env'. salt_of env' = salt_of env \<longrightarrow> hashEmail env' e = hashEmail env e)
       \<and> \<not> includes_str (hashEmail env e) e"
proof -
  have "CHR ''@'' \<notin> set ''0123456789abcdef''"
    by simp
  with assms have "\<exists>c \<in> set e. c \<notin> set ''0123456789abcdef''"
    by blast
  with hashEmail_token_general [of env e] show ?thesis
    by blast
qed

theorem hashEmail_anonymizes_email_witness:
  "hashEmail None ''test@example.com'' = ''a5a49c3a615ddf03''
   \<and> length (hashEmail None ''test@example.com'') = 16
   \<and> hashEmail (Some []) ''test@example.com'' = hashEmail None ''test@example.com''
   \<and> \<not> includes_str (hashEmail None ''test@example.com'') ''test@example.com''"
proof -
  have same: "salt_of (Some []) = salt_of None"
    by (simp add: salt_of_def falsy_string_def)
  have at: "CHR ''@'' \<in> set ''test@example.com''"
    by simp
  from hashEmail_anonymizes_email [OF at, of None] same hashEmail_test_vector
  show ?thesis by blast
qed

subsection \<open>The request-otp handler and the rate limiter\<close>

lemma digit_char_0: "digit_char 0 = CHR ''0''"
  by code_simp

lemma digit_char_1: "digit_char (Suc 0) = CHR ''1''"
  by code_simp

lemma toString_100000: "toString 100000 = ''100000''"
  by (simp add: toString.simps [of 100000] toString.simps [of 10000] toString.simps [of 1000]
      toString.simps [of 100] toString.simps [of 10] toString.simps [of "Suc 0"]
      digit_char_0 digit_char_1)

lemma generateOTP_zero: "generateOTP (0, 0, 0, 0) = ''100000''"
  by (simp add: generateOTP_def readUInt32BE_def otp_number_def toString_100000)

text \<open>
  Claim C4 does not hold of the code. \<open>request_otp_POST\<close> never consults the rate
  limiter: the route imports nothing from \<open>lib/rate-limiter.ts\<close>, and no other file calls
  \<open>withRateLimit\<close> or \<open>otpRateLimiter.check\<close>. After five requests of one client within
  a minute, \<open>check\<close> with the \<open>OTP_REQUEST\<close> limits (5 per 60000 ms) refuses the sixth;
  the handler answers that sixth request with success all the same, and persists a new code
  and expiry.
\<close>

theorem request_otp_not_rate_limited:
  "fst (check 50 (snd (checks Map.empty ''203.0.113.7'' 5 60000 [0, 10, 20, 30, 40]))
          ''203.0.113.7'' 5 60000) = False
   \<and> request_otp_POST 50 \<lparr>NODE_ENV = ''production'', RESEND_API_KEY = Some ''re_key''\<rparr>
         (0, 0, 0, 0) True sample_db (Parsed ''teacher@school.org'')
       = (OtpSent None,
          sample_db\<lparr>invitedUser :=
            [sample_user\<lparr>otpCode := Some ''100000'', otpExpiry := Some 600050,
                         remindersSent := 0\<rparr>]\<rparr>)"
proof -
  have limiter: "fst (check 50 (snd (checks Map.empty ''203.0.113.7'' 5 60000 [0, 10, 20, 30, 40]))
          ''203.0.113.7'' 5 60000) = False"
    by (simp add: check_def)
  have handler: "request_otp_POST 50 \<lparr>NODE_ENV = ''production'', RESEND_API_KEY = Some ''re_key''\<rparr>
         (0, 0, 0, 0) True sample_db (Parsed ''teacher@school.org'')
       = (OtpSent None,
          sample_db\<lparr>invitedUser :=
            [sample_user\<lparr>otpCode := Some ''100000'', otpExpiry := Some 600050,
                         remindersSent := 0\<rparr>]\<rparr>)"
    using sample_access sample_found
    by (simp add: request_otp_POST_def generateOTP_zero updateInvitedUser_def falsy_string_def
        sample_db_def sample_user_def)
  from limiter handler show ?thesis by (rule conjI)
qed

subsection \<open>The stored code is never the empty string\<close>

lemma length_generateOTP: "length (generateOTP buffer) = 6"
proof -
  have "10 ^ 5 \<le> otp_number (readUInt32BE buffer)" "otp_number (readUInt32BE buffer) < 10 ^ Suc 5"
    using otp_number_range [of "readUInt32BE buffer"] by simp_all
  then have "length (toString (otp_number (readUInt32BE buffer))) = Suc 5"
    by (rule toString_length)
  then show ?thesis by (simp add: generateOTP_def)
qed

lemma generateOTP_nonempty: "generateOTP buffer \<noteq> []"
  using length_generateOTP [of buffer] by auto

lemma update_keeps_codes_nonempty:
  assumes "stored_codes_nonempty db" and "\<And>u. otpCode u \<noteq> Some [] \<Longrightarrow> otpCode (f u) \<noteq> Some []"
  shows "stored_codes_nonempty (updateInvitedUser db e f)"
  using assms by (auto simp: stored_codes_nonempty_def updateInvitedUser_def list_all_iff)

lemma request_otp_keeps_codes_nonempty:
  assumes "stored_codes_nonempty db"
  shows "stored_codes_nonempty (snd (request_otp_POST now ev randomBytes sent db body))"
  using assms
  by (auto simp: request_otp_POST_def Let_def generateOTP_nonempty
      intro!: update_keeps_codes_nonempty split: request_body.splits option.splits)

lemma verify_otp_keeps_codes_nonempty:
  assumes "stored_codes_nonempty db"
  shows "stored_codes_nonempty (snd (verify_otp_POST now db body))"
  using assms
  by (auto simp: verify_otp_POST_def Let_def
      intro!: update_keeps_codes_nonempty split: request_body.splits option.splits)

lemma toggle_production_keeps_codes_nonempty:
  assumes "stored_codes_nonempty db"
  shows "stored_codes_nonempty (snd (toggle_production_POST now db sess body))"
  using assms
  by (auto simp: toggle_production_POST_def stored_codes_nonempty_def resetInvitedUser_def
      list_all_iff split: request_body.splits option.splits)

text \<open>So the code the verify-otp handler hands to \<open>validateOTP\<close> is never the empty
  string, in any store reached from one that satisfies the invariant.\<close>

lemma found_code_nonempty:
  assumes "stored_codes_nonempty db" "findUniqueInvitedUser db e = Some user"
  shows "otpCode user \<noteq> Some []"
proof -
  from assms(2) have "user \<in> set (invitedUser db)"
    by (auto simp: findUniqueInvitedUser_def find_Some_iff)
  with assms(1) show ?thesis
    by (simp add: stored_codes_nonempty_def list_all_iff)
qed

end
